theory Spec2Isabelle
  imports Main "HOL-Library.AList"
begin

section \<open>Python values used by \<^verbatim>\<open>src/extractors/extractors.py\<close>\<close>

text \<open>
  A Python \<^verbatim>\<open>str\<close> is a sequence of Unicode code points, so it is a list of
  naturals here (\<^verbatim>\<open>len\<close> counts code points).  File contents are bytes: a list
  of 8-bit \<^typ>\<open>char\<close>.  String literals of the source are ASCII and are written
  \<open>ascii ''...''\<close>.
\<close>

type_synonym ustr = "nat list"
type_synonym bytes = "char list"

definition ascii :: "string \<Rightarrow> ustr" where
  "ascii s = map of_char s"

text \<open>\<^verbatim>\<open>str(n)\<close> / \<^verbatim>\<open>f"{n}"\<close> for a non-negative integer: decimal digits.\<close>

fun str_nat :: "nat \<Rightarrow> ustr" where
  "str_nat n = (if n < 10 then [48 + n] else str_nat (n div 10) @ [48 + n mod 10])"

declare str_nat.simps [simp del]

text \<open>\<^verbatim>\<open>sep.join(xs)\<close>.\<close>

fun str_join :: "ustr \<Rightarrow> ustr list \<Rightarrow> ustr" where
  "str_join sep [] = []"
| "str_join sep [x] = x"
| "str_join sep (x # y # ys) = x @ sep @ str_join sep (y # ys)"

text \<open>
  \<^verbatim>\<open>str.isspace\<close> per code point, as CPython's \<^verbatim>\<open>Py_UNICODE_ISSPACE\<close>
  decides it, and \<^verbatim>\<open>str.strip()\<close>, which removes such code points from both ends.
\<close>

definition py_isspace :: "nat \<Rightarrow> bool" where
  "py_isspace c = ((9 \<le> c \<and> c \<le> 13) \<or> (28 \<le> c \<and> c \<le> 32) \<or> c = 133 \<or> c = 160
     \<or> c = 5760 \<or> (8192 \<le> c \<and> c \<le> 8202) \<or> c = 8232 \<or> c = 8233 \<or> c = 8239
     \<or> c = 8287 \<or> c = 12288)"

definition str_strip :: "ustr \<Rightarrow> ustr" where
  "str_strip s = rev (dropWhile py_isspace (rev (dropWhile py_isspace s)))"

text \<open>
  \<^verbatim>\<open>str.lower()\<close>.  The source uses it only in the test
  \<^verbatim>\<open>filepath.lower().endswith('.dxf')\<close>.  The letters of \<^verbatim>\<open>.dxf\<close> are the
  lowercase images of ASCII characters only, so folding the ASCII capitals decides that
  test as Python does; other code points are left as they are.
\<close>

definition str_lower :: "ustr \<Rightarrow> ustr" where
  "str_lower s = map (\<lambda>c. if 65 \<le> c \<and> c \<le> 90 then c + 32 else c) s"

definition str_endswith :: "ustr \<Rightarrow> ustr \<Rightarrow> bool" where
  "str_endswith s suf = (length suf \<le> length s \<and> drop (length s - length suf) s = suf)"

text \<open>\<^verbatim>\<open>os.path.basename\<close> (POSIX): what follows the last \<^verbatim>\<open>/\<close>.\<close>

definition basename :: "ustr \<Rightarrow> ustr" where
  "basename p = rev (takeWhile (\<lambda>c. c \<noteq> 47) (rev p))"

text \<open>\<^verbatim>\<open>s.split('\n')\<close>: the segments between line feeds; never empty.\<close>

fun split_lines :: "ustr \<Rightarrow> ustr list" where
  "split_lines [] = [[]]"
| "split_lines (c # cs) =
     (if c = 10 then [] # split_lines cs
      else (case split_lines cs of [] \<Rightarrow> [[c]] | l # ls \<Rightarrow> (c # l) # ls))"

subsection \<open>Exceptions\<close>

text \<open>
  Every exception of the source is a subclass of \<^verbatim>\<open>Exception\<close>; the handlers tell
  \<^verbatim>\<open>UnicodeDecodeError\<close> from the rest, and the source itself raises
  \<^verbatim>\<open>ValueError\<close>.  \<open>msg\<close> is \<^verbatim>\<open>str(e)\<close>.
\<close>

datatype exn_class = UnicodeDecodeError | ValueError | OtherError

datatype exn = Exn (cls: exn_class) (msg: ustr)

subsection \<open>The result dictionary\<close>

text \<open>
  The values stored under metadata keys.  \<^verbatim>\<open>result['metadata']\<close> is a
  \<^verbatim>\<open>dict\<close>: an association list in insertion order, written with
  \<^const>\<open>AList.update\<close> (an existing key keeps its place, a new key goes last, as in
  Python).  \<^verbatim>\<open>result\<close> itself always has exactly the keys \<^verbatim>\<open>text\<close> (the field \<open>rtext\<close>) and
  \<^verbatim>\<open>metadata\<close>; it is a record.
\<close>

datatype pyval = PNone | PInt int | PStr ustr | PList "pyval list" | PTuple "pyval list"

record result =
  rtext :: ustr
  metadata :: "(string \<times> pyval) list"

definition set_meta :: "string \<Rightarrow> pyval \<Rightarrow> result \<Rightarrow> result" where
  "set_meta k v r = r\<lparr>metadata := AList.update k v (metadata r)\<rparr>"

definition has_error :: "result \<Rightarrow> bool" where
  "has_error r = (map_of (metadata r) ''error'' \<noteq> None)"

text \<open>
  A \<^verbatim>\<open>try\<close> body run on the result dictionary ends with the dictionary as it
  stands and the exception that left the body, if any.  The outermost handler
  \<^verbatim>\<open>except Exception as e: result['metadata']['error'] = str(e)\<close> is \<open>catch_all\<close>.
\<close>

type_synonym attempt = "result \<times> exn option"

definition catch_all :: "attempt \<Rightarrow> result" where
  "catch_all a = (case snd a of None \<Rightarrow> fst a
                  | Some e \<Rightarrow> set_meta ''error'' (PStr (msg e)) (fst a))"

section \<open>What the libraries return\<close>

text \<open>
  The libraries (pdfplumber, pdf2image, pytesseract, PIL, python-docx, ezdxf, pandas)
  are not part of the repository.  What a call returns or raises is data of the
  environment: \<open>Inl e\<close> is the exception \<open>e\<close> raised by the call.  Opening a PDF
  stands for \<^verbatim>\<open>pdfplumber.open\<close> together with reading \<^verbatim>\<open>pdf.pages\<close> (nothing is
  stored in the result between the two), and leaving the \<^verbatim>\<open>with\<close> block is taken
  not to raise.
\<close>

text \<open>A PIL image: its \<^verbatim>\<open>size\<close> and what
  \<^verbatim>\<open>pytesseract.image_to_string(img, lang='eng+mal')\<close> does on it.\<close>

record image =
  img_size :: "nat \<times> nat"
  image_to_string :: "exn + ustr"

text \<open>A pdfplumber table: rows of cells, a cell a string or \<^verbatim>\<open>None\<close>.\<close>

type_synonym pdf_table = "ustr option list list"

record page =
  extract_text :: "exn + ustr option"
  extract_tables :: "exn + pdf_table list"

text \<open>A python-docx document: the texts of its paragraphs, and its tables, each a list
  of rows; reading the cells of a row (\<^verbatim>\<open>row.cells\<close>) may raise.\<close>

type_synonym docx_table = "(exn + ustr list) list"

record docx_document =
  paragraphs :: "ustr list"
  tables :: "docx_table list"

text \<open>An ezdxf entity: its \<^verbatim>\<open>dxftype()\<close>, \<^verbatim>\<open>str(entity)\<close>, and the attribute
  \<^verbatim>\<open>entity.dxf.text\<close>: \<open>Inr None\<close> when \<^verbatim>\<open>hasattr\<close> is false, \<open>Inl e\<close> when
  reading it raises.\<close>

record entity =
  dxftype :: ustr
  entity_str :: ustr
  dxf_text :: "exn + ustr option"

record dxf_document =
  layers :: "ustr list"
  modelspace :: "entity list"

text \<open>A pandas DataFrame: the column labels and the data rows.\<close>

record dataframe =
  columns :: "ustr list"
  rows :: "ustr list list"

text \<open>The encodings the source names, and the strings it names them by.\<close>

datatype encoding = Utf8 | Latin1 | Cp1252

definition encoding_name :: "encoding \<Rightarrow> string" where
  "encoding_name enc = (case enc of Utf8 \<Rightarrow> ''utf-8'' | Latin1 \<Rightarrow> ''latin-1'' | Cp1252 \<Rightarrow> ''cp1252'')"

text \<open>
  \<open>pd_read_csv env filepath enc\<close> is \<^verbatim>\<open>pd.read_csv(filepath, encoding=enc)\<close>: the
  table, or the exception pandas raises (a \<^verbatim>\<open>UnicodeDecodeError\<close>, a parser error,
  an \<^verbatim>\<open>OSError\<close>), whichever it meets first while it reads the file.
  \<open>to_string\<close> is \<^verbatim>\<open>DataFrame.to_string(index=False)\<close>.
\<close>

record env =
  pdfplumber_open :: "ustr \<Rightarrow> exn + page list"
  convert_from_path :: "ustr \<Rightarrow> nat \<Rightarrow> nat \<Rightarrow> exn + image list"
  Image_open :: "ustr \<Rightarrow> exn + image"
  docx_Document :: "ustr \<Rightarrow> exn + docx_document"
  ezdxf_readfile :: "ustr \<Rightarrow> exn + dxf_document"
  file_bytes :: "ustr \<Rightarrow> exn + bytes"
  pd_read_csv :: "ustr \<Rightarrow> encoding \<Rightarrow> exn + dataframe"
  to_string :: "dataframe \<Rightarrow> ustr"

section \<open>ImageExtractor\<close>

definition Image_init :: result where
  "Image_init = \<lparr>rtext = [], metadata =
     [(''ocr_method'', PStr (ascii ''tesseract'')), (''image_size'', PNone)]\<rparr>"

definition size_tuple :: "nat \<times> nat \<Rightarrow> pyval" where
  "size_tuple wh = PTuple [PInt (int (fst wh)), PInt (int (snd wh))]"

definition Image_body :: "env \<Rightarrow> ustr \<Rightarrow> attempt" where
  "Image_body env filepath =
     (case Image_open env filepath of
        Inl e \<Rightarrow> (Image_init, Some e)
      | Inr img \<Rightarrow>
          (let r1 = set_meta ''image_size'' (size_tuple (img_size img)) Image_init in
           case image_to_string img of
             Inl e \<Rightarrow> (r1, Some e)
           | Inr t \<Rightarrow> (r1\<lparr>rtext := t\<rparr>, None)))"

definition ImageExtractor_extract :: "env \<Rightarrow> ustr \<Rightarrow> result" where
  "ImageExtractor_extract env filepath = catch_all (Image_body env filepath)"

section \<open>CADExtractor\<close>

definition CAD_init :: result where
  "CAD_init = \<lparr>rtext = [], metadata =
     [(''entities'', PInt 0), (''text_entities'', PInt 0), (''layers'', PList [])]\<rparr>"

text \<open>
  The loop over the model space.  \<^verbatim>\<open>result['metadata']['entities']\<close> is counted in the
  dictionary itself; \<^verbatim>\<open>all_text\<close> and \<^verbatim>\<open>text_entities\<close> are locals.
\<close>

record cad_state =
  cad_entities :: nat
  cad_all_text :: "ustr list"
  cad_text_entities :: nat

definition entity_step :: "entity \<Rightarrow> cad_state \<Rightarrow> cad_state \<times> exn option" where
  "entity_step en st =
     (let st1 = st\<lparr>cad_entities := cad_entities st + 1\<rparr> in
      if dxftype en = ascii ''TEXT'' \<or> dxftype en = ascii ''MTEXT'' then
        (case dxf_text en of
           Inl e \<Rightarrow> (st1, Some e)
         | Inr None \<Rightarrow> (st1\<lparr>cad_all_text := cad_all_text st1 @ [entity_str en],
                            cad_text_entities := cad_text_entities st1 + 1\<rparr>, None)
         | Inr (Some t) \<Rightarrow> (st1\<lparr>cad_all_text := cad_all_text st1 @ [t],
                               cad_text_entities := cad_text_entities st1 + 1\<rparr>, None))
      else if dxftype en = ascii ''DIMENSION'' then
        (case dxf_text en of
           Inl e \<Rightarrow> (st1, Some e)
         | Inr None \<Rightarrow> (st1, None)
         | Inr (Some t) \<Rightarrow> (st1\<lparr>cad_all_text := cad_all_text st1 @ [t],
                               cad_text_entities := cad_text_entities st1 + 1\<rparr>, None))
      else (st1, None))"

fun entity_loop :: "entity list \<Rightarrow> cad_state \<Rightarrow> cad_state \<times> exn option" where
  "entity_loop [] st = (st, None)"
| "entity_loop (en # ens) st =
     (case entity_step en st of
        (st1, Some e) \<Rightarrow> (st1, Some e)
      | (st1, None) \<Rightarrow> entity_loop ens st1)"


definition CAD_body :: "env \<Rightarrow> ustr \<Rightarrow> attempt" where
  "CAD_body env filepath =
     (if str_endswith (str_lower filepath) (ascii ''.dxf'') then
        (case ezdxf_readfile env filepath of
           Inl e \<Rightarrow> (CAD_init, Some e)
         | Inr doc \<Rightarrow>
             (let r1 = set_meta ''layers'' (PList (map PStr (layers doc))) CAD_init in
              case entity_loop (modelspace doc)
                     \<lparr>cad_entities = 0, cad_all_text = [], cad_text_entities = 0\<rparr> of
                (st, Some e) \<Rightarrow>
                  (set_meta ''entities'' (PInt (int (cad_entities st))) r1, Some e)
              | (st, None) \<Rightarrow>
                  ((set_meta ''text_entities'' (PInt (int (cad_text_entities st)))
                     (set_meta ''entities'' (PInt (int (cad_entities st))) r1))
                   \<lparr>rtext := str_join [10] (cad_all_text st)\<rparr>, None)))
      else (CAD_init, None))"

text \<open>The handler of the CAD strategy also replaces the text by a placeholder.\<close>

definition CAD_placeholder :: "ustr \<Rightarrow> ustr" where
  "CAD_placeholder filepath = ascii ''CAD file detected: '' @ basename filepath"

definition CADExtractor_extract :: "env \<Rightarrow> ustr \<Rightarrow> result" where
  "CADExtractor_extract env filepath =
     (case CAD_body env filepath of
        (r, None) \<Rightarrow> r
      | (r, Some e) \<Rightarrow> (set_meta ''error'' (PStr (msg e)) r)\<lparr>rtext := CAD_placeholder filepath\<rparr>)"

section \<open>DOCXExtractor\<close>






section \<open>PDFExtractor\<close>

text \<open>
  What the run of the page loop does besides filling the result: the calls
  \<^verbatim>\<open>convert_from_path(filepath, first_page=n, last_page=n)\<close> it makes and the lines
  it prints.
\<close>

datatype event = Rasterize ustr nat nat | Printed ustr

text \<open>
  The state of the page loop: the locals \<^verbatim>\<open>all_text\<close> and \<^verbatim>\<open>tables_count\<close>,
  and the list \<^verbatim>\<open>result['metadata']['extraction_method']\<close>, which the loop appends to
  in place.
\<close>

record pdf_state =
  all_text :: "ustr list"
  extraction_method :: "ustr list"
  tables_count :: nat
  events :: "event list"

definition tag_direct :: "nat \<Rightarrow> ustr" where
  "tag_direct n = ascii ''page_'' @ str_nat n @ ascii ''_direct''"

definition tag_ocr :: "nat \<Rightarrow> ustr" where
  "tag_ocr n = ascii ''page_'' @ str_nat n @ ascii ''_ocr''"

text \<open>\<^verbatim>\<open>text and len(text.strip()) > 30\<close>.\<close>

definition significant :: "ustr option \<Rightarrow> bool" where
  "significant t = (case t of None \<Rightarrow> False | Some s \<Rightarrow> s \<noteq> [] \<and> 30 < length (str_strip s))"

fun ocr_loop :: "nat \<Rightarrow> image list \<Rightarrow> pdf_state \<Rightarrow> pdf_state \<times> exn option" where
  "ocr_loop n [] st = (st, None)"
| "ocr_loop n (img # imgs) st =
     (case image_to_string img of
        Inl e \<Rightarrow> (st, Some e)
      | Inr ocr_text \<Rightarrow>
          ocr_loop n imgs (st\<lparr>all_text := all_text st @ [ocr_text],
                              extraction_method := extraction_method st @ [tag_ocr n]\<rparr>))"

definition ocr_failed :: "nat \<Rightarrow> exn \<Rightarrow> pdf_state \<Rightarrow> pdf_state" where
  "ocr_failed n e st =
     st\<lparr>events := events st @
        [Printed (ascii ''OCR failed for page '' @ str_nat n @ ascii '': '' @ msg e)]\<rparr>"

text \<open>The \<^verbatim>\<open>else\<close> branch of a page, with its own \<^verbatim>\<open>try\<close>: \<open>n\<close> is \<^verbatim>\<open>i+1\<close>.\<close>

definition ocr_fallback :: "env \<Rightarrow> ustr \<Rightarrow> nat \<Rightarrow> pdf_state \<Rightarrow> pdf_state" where
  "ocr_fallback env filepath n st =
     (let st1 = st\<lparr>events := events st @ [Rasterize filepath n n]\<rparr> in
      case convert_from_path env filepath n n of
        Inl e \<Rightarrow> ocr_failed n e st1
      | Inr img_pages \<Rightarrow>
          (case ocr_loop n img_pages st1 of
             (st2, None) \<Rightarrow> st2
           | (st2, Some e) \<Rightarrow> ocr_failed n e st2))"

definition row_text :: "ustr option list \<Rightarrow> ustr" where
  "row_text row = str_join (ascii '' | '') [cell. Some cell \<leftarrow> row, cell \<noteq> []]"

definition table_entry :: "pdf_table \<Rightarrow> ustr" where
  "table_entry table = ascii ''TABLE:'' @ [10] @ str_join [10] (map row_text table)"

text \<open>The table part of a page, under \<^verbatim>\<open>try: ... except: pass\<close>.\<close>

definition tables_step :: "page \<Rightarrow> pdf_state \<Rightarrow> pdf_state" where
  "tables_step pg st =
     (case extract_tables pg of
        Inl e \<Rightarrow> st
      | Inr tbls \<Rightarrow>
          (if tbls \<noteq> [] then
             st\<lparr>tables_count := tables_count st + length tbls,
                all_text := all_text st @ map table_entry tbls\<rparr>
           else st))"

definition page_step :: "env \<Rightarrow> ustr \<Rightarrow> nat \<Rightarrow> page \<Rightarrow> pdf_state \<Rightarrow> pdf_state \<times> exn option" where
  "page_step env filepath i pg st =
     (case extract_text pg of
        Inl e \<Rightarrow> (st, Some e)
      | Inr t \<Rightarrow>
          (let st1 =
             (if significant t then
                st\<lparr>all_text := all_text st @ [the t],
                   extraction_method := extraction_method st @ [tag_direct (i + 1)]\<rparr>
              else ocr_fallback env filepath (i + 1) st)
           in (tables_step pg st1, None)))"

fun pages_loop :: "env \<Rightarrow> ustr \<Rightarrow> nat \<Rightarrow> page list \<Rightarrow> pdf_state \<Rightarrow> pdf_state \<times> exn option" where
  "pages_loop env filepath i [] st = (st, None)"
| "pages_loop env filepath i (pg # pgs) st =
     (case page_step env filepath i pg st of
        (st1, Some e) \<Rightarrow> (st1, Some e)
      | (st1, None) \<Rightarrow> pages_loop env filepath (i + 1) pgs st1)"


definition pdf_state0 :: pdf_state where
  "pdf_state0 = \<lparr>all_text = [], extraction_method = [], tables_count = 0, events = []\<rparr>"

text \<open>The run of the page loop of a file, when the file opens.\<close>

definition PDF_run :: "env \<Rightarrow> ustr \<Rightarrow> (pdf_state \<times> exn option) option" where
  "PDF_run env filepath =
     (case pdfplumber_open env filepath of
        Inl e \<Rightarrow> None
      | Inr pdf_pages \<Rightarrow> Some (pages_loop env filepath 0 pdf_pages pdf_state0))"



section \<open>Decoding bytes\<close>

text \<open>
  The three codecs the source names, on the byte values.  UTF-8 is decoded strictly, as
  Python does: no overlong form, no surrogate, nothing above U+10FFFF, no truncated
  sequence.  Latin-1 maps every byte to the code point of the same value.  Windows-1252
  differs from Latin-1 on 0x80..0x9F, where five bytes are undefined.
\<close>

definition is_cont :: "nat \<Rightarrow> bool" where
  "is_cont n = (128 \<le> n \<and> n \<le> 191)"

fun utf8_dec :: "nat list \<Rightarrow> ustr option" where
  "utf8_dec [] = Some []"
| "utf8_dec (n # ns) =
     (if n < 128 then map_option ((#) n) (utf8_dec ns)
      else if 194 \<le> n \<and> n \<le> 223 then
        (case ns of
           c1 # r \<Rightarrow>
             (if is_cont c1
              then map_option ((#) ((n - 192) * 64 + (c1 - 128))) (utf8_dec r)
              else None)
         | _ \<Rightarrow> None)
      else if 224 \<le> n \<and> n \<le> 239 then
        (case ns of
           c1 # c2 # r \<Rightarrow>
             (if (if n = 224 then 160 else 128) \<le> c1 \<and> c1 \<le> (if n = 237 then 159 else 191)
                 \<and> is_cont c2
              then map_option ((#) ((n - 224) * 4096 + (c1 - 128) * 64 + (c2 - 128)))
                     (utf8_dec r)
              else None)
         | _ \<Rightarrow> None)
      else if 240 \<le> n \<and> n \<le> 244 then
        (case ns of
           c1 # c2 # c3 # r \<Rightarrow>
             (if (if n = 240 then 144 else 128) \<le> c1 \<and> c1 \<le> (if n = 244 then 143 else 191)
                 \<and> is_cont c2 \<and> is_cont c3
              then map_option
                     ((#) ((n - 240) * 262144 + (c1 - 128) * 4096 + (c2 - 128) * 64 + (c3 - 128)))
                     (utf8_dec r)
              else None)
         | _ \<Rightarrow> None)
      else None)"

definition cp1252_high :: "nat option list" where
  "cp1252_high =
     [Some 8364, None, Some 8218, Some 402, Some 8222, Some 8230, Some 8224, Some 8225,
      Some 710, Some 8240, Some 352, Some 8249, Some 338, None, Some 381, None,
      None, Some 8216, Some 8217, Some 8220, Some 8221, Some 8226, Some 8211, Some 8212,
      Some 732, Some 8482, Some 353, Some 8250, Some 339, None, Some 382, Some 376]"

definition cp1252_byte :: "nat \<Rightarrow> nat option" where
  "cp1252_byte n = (if 128 \<le> n \<and> n < 160 then cp1252_high ! (n - 128) else Some n)"

fun cp1252_dec :: "nat list \<Rightarrow> ustr option" where
  "cp1252_dec [] = Some []"
| "cp1252_dec (n # ns) =
     (case cp1252_byte n of
        None \<Rightarrow> None
      | Some c \<Rightarrow> map_option ((#) c) (cp1252_dec ns))"

definition decode_bytes :: "encoding \<Rightarrow> bytes \<Rightarrow> ustr option" where
  "decode_bytes enc b =
     (case enc of
        Utf8 \<Rightarrow> utf8_dec (map of_char b)
      | Latin1 \<Rightarrow> Some (map of_char b)
      | Cp1252 \<Rightarrow> cp1252_dec (map of_char b))"

definition decode_error :: exn where
  "decode_error = Exn UnicodeDecodeError (ascii ''codec cannot decode byte'')"

text \<open>The candidates, in the order of the source's list
  \<^verbatim>\<open>['utf-8', 'latin-1', 'cp1252']\<close>.\<close>

definition encodings :: "encoding list" where
  "encodings = [Utf8, Latin1, Cp1252]"

section \<open>TXTExtractor\<close>

text \<open>
  \<^verbatim>\<open>open(filepath, 'r', encoding=encoding)\<close> reads in text mode with the default
  \<^verbatim>\<open>newline=None\<close>: after decoding, \<^verbatim>\<open>\r\n\<close> and a lone \<^verbatim>\<open>\r\<close> are
  returned as \<^verbatim>\<open>\n\<close>.
\<close>

fun universal_newlines :: "ustr \<Rightarrow> ustr" where
  "universal_newlines [] = []"
| "universal_newlines [c] = [if c = 13 then 10 else c]"
| "universal_newlines (c # d # cs) =
     (if c = 13 \<and> d = 10 then 10 # universal_newlines cs
      else if c = 13 then 10 # universal_newlines (d # cs)
      else c # universal_newlines (d # cs))"

definition open_read :: "env \<Rightarrow> ustr \<Rightarrow> encoding \<Rightarrow> exn + ustr" where
  "open_read env filepath enc =
     (case file_bytes env filepath of
        Inl e \<Rightarrow> Inl e
      | Inr b \<Rightarrow>
          (case decode_bytes enc b of
             None \<Rightarrow> Inl decode_error
           | Some s \<Rightarrow> Inr (universal_newlines s)))"

text \<open>The \<^verbatim>\<open>for ... else\<close> over the candidates: \<^verbatim>\<open>except UnicodeDecodeError:
  continue\<close> goes on to the next one, any other exception leaves the loop, and the
  \<^verbatim>\<open>else\<close> branch raises \<^verbatim>\<open>ValueError\<close>.\<close>

fun txt_try :: "env \<Rightarrow> ustr \<Rightarrow> encoding list \<Rightarrow> exn + (encoding \<times> ustr)" where
  "txt_try env filepath [] =
     Inl (Exn ValueError (ascii ''Could not decode text file with any common encoding''))"
| "txt_try env filepath (enc # encs) =
     (case open_read env filepath enc of
        Inr t \<Rightarrow> Inr (enc, t)
      | Inl e \<Rightarrow> (if cls e = UnicodeDecodeError then txt_try env filepath encs else Inl e))"

definition TXT_init :: result where
  "TXT_init = \<lparr>rtext = [], metadata = [(''encoding'', PStr (ascii ''utf-8'')), (''lines'', PInt 0)]\<rparr>"

definition TXT_body :: "env \<Rightarrow> ustr \<Rightarrow> attempt" where
  "TXT_body env filepath =
     (case txt_try env filepath encodings of
        Inl e \<Rightarrow> (TXT_init, Some e)
      | Inr (enc, t) \<Rightarrow>
          ((set_meta ''lines'' (PInt (int (length (split_lines t))))
             (set_meta ''encoding'' (PStr (ascii (encoding_name enc))) TXT_init))
           \<lparr>rtext := t\<rparr>, None))"

definition TXTExtractor_extract :: "env \<Rightarrow> ustr \<Rightarrow> result" where
  "TXTExtractor_extract env filepath = catch_all (TXT_body env filepath)"

section \<open>CSVExtractor\<close>

text \<open>The \<^verbatim>\<open>for ... else\<close> over the candidates, as in the plain-text strategy, around
  \<^verbatim>\<open>pd.read_csv\<close>.\<close>

fun csv_try :: "env \<Rightarrow> ustr \<Rightarrow> encoding list \<Rightarrow> exn + (encoding \<times> dataframe)" where
  "csv_try env filepath [] =
     Inl (Exn ValueError (ascii ''Could not decode CSV with any common encoding''))"
| "csv_try env filepath (enc # encs) =
     (case pd_read_csv env filepath enc of
        Inr df \<Rightarrow> Inr (enc, df)
      | Inl e \<Rightarrow> (if cls e = UnicodeDecodeError then csv_try env filepath encs else Inl e))"

text \<open>\<^verbatim>\<open>df.head(n)\<close>.\<close>

definition head :: "nat \<Rightarrow> dataframe \<Rightarrow> dataframe" where
  "head n df = df\<lparr>rows := take n (rows df)\<rparr>"

definition text_parts :: "env \<Rightarrow> dataframe \<Rightarrow> ustr list" where
  "text_parts env df =
     [ascii ''CSV Table with '' @ str_nat (length (rows df)) @ ascii '' rows and ''
        @ str_nat (length (columns df)) @ ascii '' columns:'',
      ascii ''Columns: '' @ str_join (ascii '', '') (columns df),
      ascii ''Data preview:'',
      to_string env (head 10 df)]"

definition CSV_init :: result where
  "CSV_init = \<lparr>rtext = [], metadata =
     [(''rows'', PInt 0), (''columns'', PInt 0), (''encoding'', PStr (ascii ''utf-8''))]\<rparr>"

definition CSV_body :: "env \<Rightarrow> ustr \<Rightarrow> attempt" where
  "CSV_body env filepath =
     (case csv_try env filepath encodings of
        Inl e \<Rightarrow> (CSV_init, Some e)
      | Inr (enc, df) \<Rightarrow>
          ((set_meta ''columns'' (PInt (int (length (columns df))))
             (set_meta ''rows'' (PInt (int (length (rows df))))
               (set_meta ''encoding'' (PStr (ascii (encoding_name enc))) CSV_init)))
           \<lparr>rtext := str_join [10, 10] (text_parts env df)\<rparr>, None))"

definition CSVExtractor_extract :: "env \<Rightarrow> ustr \<Rightarrow> result" where
  "CSVExtractor_extract env filepath = catch_all (CSV_body env filepath)"

section \<open>ExtractorFactory\<close>

datatype extractor =
  PDFExtractor | ImageExtractor | DOCXExtractor | CADExtractor | CSVExtractor | TXTExtractor

definition extractors :: "(ustr \<times> extractor) list" where
  "extractors =
     [(ascii ''PDF'', PDFExtractor),
      (ascii ''IMAGE'', ImageExtractor),
      (ascii ''DOCX'', DOCXExtractor),
      (ascii ''DOC'', DOCXExtractor),
      (ascii ''DXF'', CADExtractor),
      (ascii ''DWG'', CADExtractor),
      (ascii ''CSV'', CSVExtractor),
      (ascii ''TXT'', TXTExtractor),
      (ascii ''XLSX'', CSVExtractor)]"

definition get_extractor :: "ustr \<Rightarrow> exn + extractor" where
  "get_extractor file_type =
     (case map_of extractors file_type of
        Some extractor_class \<Rightarrow> Inr extractor_class
      | None \<Rightarrow>
          Inl (Exn ValueError (ascii ''No extractor available for file type: '' @ file_type)))"






section \<open>Sample inputs\<close>

text \<open>An environment in which no file exists: every library call raises.\<close>

definition no_libs :: env where
  "no_libs =
     \<lparr>pdfplumber_open = (\<lambda>p. Inl (Exn OtherError (ascii ''No such file''))),
      convert_from_path = (\<lambda>p a b. Inl (Exn OtherError (ascii ''No such file''))),
      Image_open = (\<lambda>p. Inl (Exn OtherError (ascii ''No such file''))),
      docx_Document = (\<lambda>p. Inl (Exn OtherError (ascii ''No such file''))),
      ezdxf_readfile = (\<lambda>p. Inl (Exn OtherError (ascii ''No such file''))),
      file_bytes = (\<lambda>p. Inl (Exn OtherError (ascii ''No such file''))),
      pd_read_csv = (\<lambda>p enc. Inl (Exn OtherError (ascii ''No such file''))),
      to_string = (\<lambda>df. [])\<rparr>"

text \<open>An image that opens (640 by 480) and on which the OCR engine fails.\<close>

definition img_ocr_fails :: image where
  "img_ocr_fails = \<lparr>img_size = (640, 480),
      image_to_string = Inl (Exn OtherError (ascii ''tesseract is not installed''))\<rparr>"

definition env_ocr_fails :: env where
  "env_ocr_fails = no_libs\<lparr>Image_open := (\<lambda>p. Inr img_ocr_fails)\<rparr>"






text \<open>\<open>env_file b\<close> reads every path as the file of content \<open>b\<close>.\<close>

definition env_file :: "bytes \<Rightarrow> env" where
  "env_file b = no_libs\<lparr>file_bytes := (\<lambda>p. Inr b)\<rparr>"

text \<open>A table of 10,000 rows and two columns, and an environment in which pandas reads
  every path as this table and renders one line per row.\<close>

definition big_df :: dataframe where
  "big_df = \<lparr>columns = [ascii ''id'', ascii ''name''],
              rows = replicate 10000 [ascii ''7'', ascii ''x'']\<rparr>"

definition env_csv :: env where
  "env_csv = no_libs\<lparr>pd_read_csv := (\<lambda>p enc. Inr big_df),
     to_string := (\<lambda>df. str_join [10] (map (str_join [32]) (rows df)))\<rparr>"

text \<open>The word \<^verbatim>\<open>caf\<close> followed by e-acute, encoded in UTF-8 and in Latin-1 (the same
  bytes in Windows-1252).\<close>

definition cafe_utf8 :: bytes where
  "cafe_utf8 = [CHR ''c'', CHR ''a'', CHR ''f'', CHR 0xC3, CHR 0xA9]"

definition cafe_latin1 :: bytes where
  "cafe_latin1 = [CHR ''c'', CHR ''a'', CHR ''f'', CHR 0xE9]"

text \<open>Environments in which pandas cannot decode the file as UTF-8 and then, under
  Latin-1, reads the table, or meets a malformed line.\<close>

definition env_csv_latin1 :: env where
  "env_csv_latin1 =
     env_csv\<lparr>pd_read_csv := (\<lambda>p enc. if enc = Utf8 then Inl decode_error else Inr big_df)\<rparr>"

definition env_csv_ragged :: env where
  "env_csv_ragged =
     no_libs\<lparr>pd_read_csv := (\<lambda>p enc. if enc = Utf8 then Inl decode_error
        else Inl (Exn OtherError (ascii ''Error tokenizing data'')))\<rparr>"

















text \<open>Environments in which pandas raises \<^verbatim>\<open>UnicodeDecodeError\<close> under UTF-8 and under
  Latin-1 and then, under Windows-1252, reads the table, or raises it again.\<close>

definition env_csv_cp1252 :: env where
  "env_csv_cp1252 =
     env_csv\<lparr>pd_read_csv := (\<lambda>p enc. if enc = Cp1252 then Inr big_df else Inl decode_error)\<rparr>"

definition env_csv_undecodable :: env where
  "env_csv_undecodable = no_libs\<lparr>pd_read_csv := (\<lambda>p enc. Inl decode_error)\<rparr>"

section \<open>Auxiliary facts\<close>

subsection \<open>The outer handler\<close>









subsection \<open>Page tags\<close>





lemma str_nat_digit: "n < 10 \<Longrightarrow> str_nat n = [48 + n]"
  by (simp add: str_nat.simps [of n])



subsection \<open>What a page, and the page loop, add to the state\<close>













subsection \<open>The run of the page loop, page by page\<close>


















lemma PDF_run_opens:
  "pdfplumber_open env fp = Inr pgs \<Longrightarrow>
     PDF_run env fp = Some (pages_loop env fp 0 pgs pdf_state0)"
  by (simp add: PDF_run_def)

subsection \<open>Decoding and lines\<close>

lemma cls_decode_error: "cls decode_error = UnicodeDecodeError"
  by (simp add: decode_error_def)

lemma txt_try_encodings:
  "file_bytes env fp = Inr b \<Longrightarrow>
     txt_try env fp encodings =
       (case utf8_dec (map of_char b) of
          Some s \<Rightarrow> Inr (Utf8, universal_newlines s)
        | None \<Rightarrow> Inr (Latin1, universal_newlines (map of_char b)))"
  by (simp add: encodings_def open_read_def decode_bytes_def cls_decode_error split: option.splits)

lemma csv_try_utf8:
  "pd_read_csv env fp Utf8 = Inr df \<Longrightarrow> csv_try env fp encodings = Inr (Utf8, df)"
  by (simp add: encodings_def)

lemma csv_try_other:
  "pd_read_csv env fp Utf8 = Inl e \<Longrightarrow> cls e \<noteq> UnicodeDecodeError \<Longrightarrow>
     csv_try env fp encodings = Inl e"
  by (simp add: encodings_def)

lemma csv_try_latin1:
  "pd_read_csv env fp Utf8 = Inl e \<Longrightarrow> cls e = UnicodeDecodeError \<Longrightarrow>
     pd_read_csv env fp Latin1 = Inr df \<Longrightarrow>
     csv_try env fp encodings = Inr (Latin1, df)"
  by (simp add: encodings_def)

lemma csv_try_latin1_other:
  "pd_read_csv env fp Utf8 = Inl e \<Longrightarrow> cls e = UnicodeDecodeError \<Longrightarrow>
     pd_read_csv env fp Latin1 = Inl e' \<Longrightarrow> cls e' \<noteq> UnicodeDecodeError \<Longrightarrow>
     csv_try env fp encodings = Inl e'"
  by (simp add: encodings_def)

lemma csv_try_cp1252:
  "pd_read_csv env fp Utf8 = Inl e \<Longrightarrow> cls e = UnicodeDecodeError \<Longrightarrow>
     pd_read_csv env fp Latin1 = Inl e' \<Longrightarrow> cls e' = UnicodeDecodeError \<Longrightarrow>
     pd_read_csv env fp Cp1252 = Inr df \<Longrightarrow>
     csv_try env fp encodings = Inr (Cp1252, df)"
  by (simp add: encodings_def)

lemma csv_try_exhausted:
  "pd_read_csv env fp Utf8 = Inl e \<Longrightarrow> cls e = UnicodeDecodeError \<Longrightarrow>
     pd_read_csv env fp Latin1 = Inl e' \<Longrightarrow> cls e' = UnicodeDecodeError \<Longrightarrow>
     pd_read_csv env fp Cp1252 = Inl e'' \<Longrightarrow> cls e'' = UnicodeDecodeError \<Longrightarrow>
     csv_try env fp encodings =
       Inl (Exn ValueError (ascii ''Could not decode CSV with any common encoding''))"
  by (simp add: encodings_def)

lemma split_lines_not_Nil: "split_lines t \<noteq> []"
  by (cases t) (simp_all split: list.splits)

lemma length_split_lines: "length (split_lines t) = count_list t 10 + 1"
proof (induction t)
  case Nil
  then show ?case by simp
next
  case (Cons c cs)
  then show ?case
    using split_lines_not_Nil [of cs] by (cases "split_lines cs") auto
qed

lemma last_split_lines: "t \<noteq> [] \<Longrightarrow> last t = 10 \<Longrightarrow> last (split_lines t) = []"
proof (induction t)
  case Nil
  then show ?case by simp
next
  case (Cons c cs)
  show ?case
  proof (cases cs)
    case Nil
    with Cons.prems show ?thesis by simp
  next
    case (Cons d ds)
    with Cons.prems Cons.IH have l: "last (split_lines cs) = []" by simp
    from Cons Cons.prems have "10 \<in> set cs" by (metis last.simps last_in_set list.distinct(1))
    then have "count_list cs 10 \<noteq> 0" by (simp only: count_list_0_iff not_not)
    then have "count_list cs 10 > 0" by simp
    with length_split_lines [of cs] have "length (split_lines cs) \<ge> 2" by simp
    then obtain x y zs where "split_lines cs = x # y # zs"
      by (cases "split_lines cs"; cases "tl (split_lines cs)") auto
    with l show ?thesis by simp
  qed
qed

lemma universal_newlines_no_cr: "13 \<notin> set s \<Longrightarrow> universal_newlines s = s"
  by (induction s rule: universal_newlines.induct) auto

lemma latin1_roundtrip:
  "list_all (\<lambda>c. c < 256) (s :: nat list) \<Longrightarrow> map of_char (map char_of s :: char list) = s"
  by (induction s) simp_all

lemma TXT_result:
  "file_bytes env fp = Inr b \<Longrightarrow>
     decode_bytes (if decode_bytes Utf8 b = None then Latin1 else Utf8) b = Some content \<Longrightarrow>
     TXTExtractor_extract env fp =
       \<lparr>rtext = universal_newlines content, metadata =
          [(''encoding'', PStr (ascii (encoding_name
              (if decode_bytes Utf8 b = None then Latin1 else Utf8)))),
           (''lines'', PInt (int (length (split_lines (universal_newlines content)))))]\<rparr>"
  by (auto simp: TXTExtractor_extract_def TXT_body_def TXT_init_def catch_all_def set_meta_def
        txt_try_encodings decode_bytes_def split: option.splits if_splits)

lemma TXT_unreadable:
  "file_bytes env fp = Inl e \<Longrightarrow> cls e \<noteq> UnicodeDecodeError \<Longrightarrow>
     TXTExtractor_extract env fp =
       \<lparr>rtext = [], metadata =
          [(''encoding'', PStr (ascii ''utf-8'')), (''lines'', PInt 0),
           (''error'', PStr (msg e))]\<rparr>"
  by (simp add: TXTExtractor_extract_def TXT_body_def TXT_init_def catch_all_def set_meta_def
        encodings_def open_read_def)

lemma CSV_failure:
  "csv_try env fp encodings = Inl e \<Longrightarrow>
     CSVExtractor_extract env fp =
       \<lparr>rtext = [], metadata =
          [(''rows'', PInt 0), (''columns'', PInt 0), (''encoding'', PStr (ascii ''utf-8'')),
           (''error'', PStr (msg e))]\<rparr>"
  by (simp add: CSVExtractor_extract_def CSV_body_def CSV_init_def catch_all_def set_meta_def)

lemma CSV_result:
  "csv_try env fp encodings = Inr (enc, df) \<Longrightarrow>
     CSVExtractor_extract env fp =
       \<lparr>rtext = str_join [10, 10] (text_parts env df), metadata =
          [(''rows'', PInt (int (length (rows df)))),
           (''columns'', PInt (int (length (columns df)))),
           (''encoding'', PStr (ascii (encoding_name enc)))]\<rparr>"
  by (simp add: CSVExtractor_extract_def CSV_body_def CSV_init_def catch_all_def set_meta_def)

subsection \<open>The results at the points of failure\<close>






















section \<open>Properties\<close>

subsection \<open>Returning and recording failures\<close>




subsection \<open>The PDF page policy\<close>




subsection \<open>What a result with an error keeps\<close>




subsection \<open>The CAD strategy and file names\<close>

text \<open>
  Claim C10.  For a file path whose lower-cased form does not end in \<^verbatim>\<open>.dxf\<close>, the
  CAD strategy returns its initial result: empty text, no \<^verbatim>\<open>error\<close> key,
  \<^verbatim>\<open>entities\<close> and \<^verbatim>\<open>text_entities\<close> 0 and \<^verbatim>\<open>layers\<close> the empty list.  No
  library is called: the result is the same in every environment, whatever the file
  holds.
\<close>

theorem CAD_skips_non_dxf:
  assumes "\<not> str_endswith (str_lower filepath) (ascii ''.dxf'')"
  shows "CADExtractor_extract env filepath =
           \<lparr>rtext = [], metadata = [(''entities'', PInt 0), (''text_entities'', PInt 0),
              (''layers'', PList [])]\<rparr>
         \<and> \<not> has_error (CADExtractor_extract env filepath)
         \<and> CADExtractor_extract env filepath = CADExtractor_extract env' filepath"
  using assms by (simp add: CADExtractor_extract_def CAD_body_def CAD_init_def has_error_def)

theorem CAD_skips_non_dxf_witness:
  "\<not> str_endswith (str_lower (ascii ''scan/plan.PDF'')) (ascii ''.dxf'')
   \<and> CADExtractor_extract no_libs (ascii ''scan/plan.PDF'') =
           \<lparr>rtext = [], metadata = [(''entities'', PInt 0), (''text_entities'', PInt 0),
              (''layers'', PList [])]\<rparr>"
  using CAD_skips_non_dxf [of "ascii ''scan/plan.PDF''" no_libs no_libs]
  by (simp add: ascii_def str_lower_def str_endswith_def)

text \<open>
  Claim C4, at the file \<^verbatim>\<open>drawing.dwg\<close>.  The claim and the comment of the handler
  (\<^verbatim>\<open>For DWG files or if ezdxf fails, return metadata only\<close>) give a legacy binary
  drawing the placeholder text and an error.  The test on the extension keeps the
  strategy from reaching the handler: the text is empty and no error is recorded.
\<close>

theorem CAD_dwg_returns_empty:
  "CADExtractor_extract env (ascii ''drawing.dwg'') =
     \<lparr>rtext = [], metadata = [(''entities'', PInt 0), (''text_entities'', PInt 0),
        (''layers'', PList [])]\<rparr>
   \<and> \<not> has_error (CADExtractor_extract env (ascii ''drawing.dwg''))
   \<and> rtext (CADExtractor_extract env (ascii ''drawing.dwg''))
        \<noteq> CAD_placeholder (ascii ''drawing.dwg'')"
  by (simp add: CADExtractor_extract_def CAD_body_def CAD_init_def has_error_def
        ascii_def str_lower_def str_endswith_def CAD_placeholder_def)

subsection \<open>The image strategy\<close>

text \<open>
  Claim C5, amended.  Every failure of the image strategy sets \<^verbatim>\<open>error\<close> and leaves
  the text empty.  \<^verbatim>\<open>image_size\<close> is \<^verbatim>\<open>None\<close> when the image cannot be opened;
  when it opens and the OCR fails, \<^verbatim>\<open>image_size\<close> holds the size of the image.
\<close>

theorem Image_failure_cases:
  "(Image_open env filepath = Inl e \<longrightarrow>
      ImageExtractor_extract env filepath =
        \<lparr>rtext = [], metadata = [(''ocr_method'', PStr (ascii ''tesseract'')),
            (''image_size'', PNone), (''error'', PStr (msg e))]\<rparr>)
   \<and> (Image_open env filepath = Inr img \<and> image_to_string img = Inl e \<longrightarrow>
      ImageExtractor_extract env filepath =
        \<lparr>rtext = [], metadata = [(''ocr_method'', PStr (ascii ''tesseract'')),
            (''image_size'',
               PTuple [PInt (int (fst (img_size img))), PInt (int (snd (img_size img)))]),
            (''error'', PStr (msg e))]\<rparr>)
   \<and> (has_error (ImageExtractor_extract env filepath) \<longrightarrow>
        rtext (ImageExtractor_extract env filepath) = [])"
  by (auto simp: ImageExtractor_extract_def Image_body_def Image_init_def catch_all_def
        set_meta_def size_tuple_def has_error_def Let_def split: sum.splits)

theorem Image_failure_cases_witness:
  "Image_open no_libs (ascii ''scan.png'') = Inl (Exn OtherError (ascii ''No such file''))
   \<and> ImageExtractor_extract no_libs (ascii ''scan.png'') =
        \<lparr>rtext = [], metadata = [(''ocr_method'', PStr (ascii ''tesseract'')),
            (''image_size'', PNone), (''error'', PStr (ascii ''No such file''))]\<rparr>
   \<and> Image_open env_ocr_fails (ascii ''scan.png'') = Inr img_ocr_fails
   \<and> image_to_string img_ocr_fails = Inl (Exn OtherError (ascii ''tesseract is not installed''))
   \<and> ImageExtractor_extract env_ocr_fails (ascii ''scan.png'') =
        \<lparr>rtext = [], metadata = [(''ocr_method'', PStr (ascii ''tesseract'')),
            (''image_size'', PTuple [PInt 640, PInt 480]),
            (''error'', PStr (ascii ''tesseract is not installed''))]\<rparr>
   \<and> has_error (ImageExtractor_extract env_ocr_fails (ascii ''scan.png''))"
  using Image_failure_cases [of no_libs "ascii ''scan.png''"
          "Exn OtherError (ascii ''No such file'')" img_ocr_fails]
    Image_failure_cases [of env_ocr_fails "ascii ''scan.png''"
          "Exn OtherError (ascii ''tesseract is not installed'')" img_ocr_fails]
  by (simp add: no_libs_def env_ocr_fails_def img_ocr_fails_def has_error_def)

text \<open>Claim C5 as stated fails when the image opens and the OCR fails: the error is
  set and \<^verbatim>\<open>image_size\<close> is (640, 480), not \<^verbatim>\<open>None\<close>.\<close>

theorem Image_ocr_failure_keeps_size:
  "Image_open env_ocr_fails (ascii ''scan.png'') = Inr img_ocr_fails
   \<and> image_to_string img_ocr_fails = Inl (Exn OtherError (ascii ''tesseract is not installed''))
   \<and> has_error (ImageExtractor_extract env_ocr_fails (ascii ''scan.png''))
   \<and> map_of (metadata (ImageExtractor_extract env_ocr_fails (ascii ''scan.png''))) ''image_size''
        = Some (PTuple [PInt 640, PInt 480])
   \<and> map_of (metadata (ImageExtractor_extract env_ocr_fails (ascii ''scan.png''))) ''image_size''
        \<noteq> Some PNone"
  by (simp add: ImageExtractor_extract_def Image_body_def Image_init_def catch_all_def
        set_meta_def size_tuple_def has_error_def env_ocr_fails_def img_ocr_fails_def no_libs_def)

subsection \<open>Resolving the encoding\<close>

text \<open>
  Claim C6, amended.  For the CSV and plain-text strategies the candidates are tried in
  the order UTF-8, Latin-1, Windows-1252.  A candidate is passed over only when reading
  under it raises \<^verbatim>\<open>UnicodeDecodeError\<close>; the first candidate under which reading
  succeeds is recorded in \<^verbatim>\<open>metadata.encoding\<close> and used; any other exception ends
  the loop and is recorded as the error, with empty text and the encoding left at
  \<^verbatim>\<open>utf-8\<close>; so is \<^verbatim>\<open>Could not decode CSV with any common encoding\<close>, when pandas
  raises \<^verbatim>\<open>UnicodeDecodeError\<close> under all three.  Latin-1 decodes every byte sequence, so a readable plain-text file
  resolves to \<^verbatim>\<open>utf-8\<close> when its bytes are valid UTF-8 and to \<^verbatim>\<open>latin-1\<close>
  otherwise, without an error: for a file encoded in Latin-1 that is not valid UTF-8 the
  recorded encoding is \<^verbatim>\<open>latin-1\<close> and the text is the original content (read in
  text mode: line endings become \<^verbatim>\<open>\n\<close>).
\<close>

theorem encoding_resolution:
  "(file_bytes env filepath = Inr b \<longrightarrow>
      decode_bytes Latin1 b = Some (map of_char b)
      \<and> (decode_bytes Utf8 b = Some s \<longrightarrow>
           TXTExtractor_extract env filepath =
             \<lparr>rtext = universal_newlines s, metadata =
                [(''encoding'', PStr (ascii ''utf-8'')),
                 (''lines'', PInt (int (length (split_lines (universal_newlines s)))))]\<rparr>)
      \<and> (decode_bytes Utf8 b = None \<longrightarrow>
           TXTExtractor_extract env filepath =
             \<lparr>rtext = universal_newlines (map of_char b), metadata =
                [(''encoding'', PStr (ascii ''latin-1'')),
                 (''lines'',
                    PInt (int (length (split_lines (universal_newlines (map of_char b))))))]\<rparr>)
      \<and> (list_all (\<lambda>c. c < 256) original \<and> b = map char_of original
             \<and> decode_bytes Utf8 b = None \<longrightarrow>
           map_of (metadata (TXTExtractor_extract env filepath)) ''encoding''
             = Some (PStr (ascii ''latin-1''))
           \<and> rtext (TXTExtractor_extract env filepath) = universal_newlines original))
   \<and> (file_bytes env filepath = Inl e \<and> cls e \<noteq> UnicodeDecodeError \<longrightarrow>
        TXTExtractor_extract env filepath =
          \<lparr>rtext = [], metadata =
             [(''encoding'', PStr (ascii ''utf-8'')), (''lines'', PInt 0),
              (''error'', PStr (msg e))]\<rparr>)
   \<and> (pd_read_csv env filepath Utf8 = Inr df \<longrightarrow>
        CSVExtractor_extract env filepath =
          \<lparr>rtext = str_join [10, 10] (text_parts env df), metadata =
             [(''rows'', PInt (int (length (rows df)))),
              (''columns'', PInt (int (length (columns df)))),
              (''encoding'', PStr (ascii ''utf-8''))]\<rparr>)
   \<and> (pd_read_csv env filepath Utf8 = Inl e \<and> cls e \<noteq> UnicodeDecodeError \<longrightarrow>
        CSVExtractor_extract env filepath =
          \<lparr>rtext = [], metadata =
             [(''rows'', PInt 0), (''columns'', PInt 0), (''encoding'', PStr (ascii ''utf-8'')),
              (''error'', PStr (msg e))]\<rparr>)
   \<and> (pd_read_csv env filepath Utf8 = Inl u \<and> cls u = UnicodeDecodeError
          \<and> pd_read_csv env filepath Latin1 = Inr df \<longrightarrow>
        CSVExtractor_extract env filepath =
          \<lparr>rtext = str_join [10, 10] (text_parts env df), metadata =
             [(''rows'', PInt (int (length (rows df)))),
              (''columns'', PInt (int (length (columns df)))),
              (''encoding'', PStr (ascii ''latin-1''))]\<rparr>)
   \<and> (pd_read_csv env filepath Utf8 = Inl u \<and> cls u = UnicodeDecodeError
          \<and> pd_read_csv env filepath Latin1 = Inl e \<and> cls e \<noteq> UnicodeDecodeError \<longrightarrow>
        CSVExtractor_extract env filepath =
          \<lparr>rtext = [], metadata =
             [(''rows'', PInt 0), (''columns'', PInt 0), (''encoding'', PStr (ascii ''utf-8'')),
              (''error'', PStr (msg e))]\<rparr>)
   \<and> (pd_read_csv env filepath Utf8 = Inl u \<and> cls u = UnicodeDecodeError
          \<and> pd_read_csv env filepath Latin1 = Inl v \<and> cls v = UnicodeDecodeError
          \<and> pd_read_csv env filepath Cp1252 = Inr df \<longrightarrow>
        CSVExtractor_extract env filepath =
          \<lparr>rtext = str_join [10, 10] (text_parts env df), metadata =
             [(''rows'', PInt (int (length (rows df)))),
              (''columns'', PInt (int (length (columns df)))),
              (''encoding'', PStr (ascii ''cp1252''))]\<rparr>)
   \<and> (pd_read_csv env filepath Utf8 = Inl u \<and> cls u = UnicodeDecodeError
          \<and> pd_read_csv env filepath Latin1 = Inl v \<and> cls v = UnicodeDecodeError
          \<and> pd_read_csv env filepath Cp1252 = Inl w \<and> cls w = UnicodeDecodeError \<longrightarrow>
        CSVExtractor_extract env filepath =
          \<lparr>rtext = [], metadata =
             [(''rows'', PInt 0), (''columns'', PInt 0), (''encoding'', PStr (ascii ''utf-8'')),
              (''error'', PStr (ascii ''Could not decode CSV with any common encoding''))]\<rparr>)"
proof -
  have t: "file_bytes env filepath = Inr b \<longrightarrow>
      decode_bytes Latin1 b = Some (map of_char b)
      \<and> (decode_bytes Utf8 b = Some s \<longrightarrow>
           TXTExtractor_extract env filepath =
             \<lparr>rtext = universal_newlines s, metadata =
                [(''encoding'', PStr (ascii ''utf-8'')),
                 (''lines'', PInt (int (length (split_lines (universal_newlines s)))))]\<rparr>)
      \<and> (decode_bytes Utf8 b = None \<longrightarrow>
           TXTExtractor_extract env filepath =
             \<lparr>rtext = universal_newlines (map of_char b), metadata =
                [(''encoding'', PStr (ascii ''latin-1'')),
                 (''lines'',
                    PInt (int (length (split_lines (universal_newlines (map of_char b))))))]\<rparr>)
      \<and> (list_all (\<lambda>c. c < 256) original \<and> b = map char_of original
             \<and> decode_bytes Utf8 b = None \<longrightarrow>
           map_of (metadata (TXTExtractor_extract env filepath)) ''encoding''
             = Some (PStr (ascii ''latin-1''))
           \<and> rtext (TXTExtractor_extract env filepath) = universal_newlines original)"
  proof
    assume f: "file_bytes env filepath = Inr b"
    have 1: "decode_bytes Latin1 b = Some (map of_char b)"
      by (simp add: decode_bytes_def)
    have 2: "decode_bytes Utf8 b = Some s \<longrightarrow>
        TXTExtractor_extract env filepath =
          \<lparr>rtext = universal_newlines s, metadata =
             [(''encoding'', PStr (ascii ''utf-8'')),
              (''lines'', PInt (int (length (split_lines (universal_newlines s)))))]\<rparr>"
      using TXT_result [OF f, of s] by (simp add: encoding_name_def)
    have 3: "decode_bytes Utf8 b = None \<longrightarrow>
        TXTExtractor_extract env filepath =
          \<lparr>rtext = universal_newlines (map of_char b), metadata =
             [(''encoding'', PStr (ascii ''latin-1'')),
              (''lines'',
                 PInt (int (length (split_lines (universal_newlines (map of_char b))))))]\<rparr>"
      using TXT_result [OF f, of "map of_char b"] 1 by (simp add: encoding_name_def)
    have 4: "list_all (\<lambda>c. c < 256) original \<and> b = map char_of original
          \<and> decode_bytes Utf8 b = None \<longrightarrow>
        map_of (metadata (TXTExtractor_extract env filepath)) ''encoding''
          = Some (PStr (ascii ''latin-1''))
        \<and> rtext (TXTExtractor_extract env filepath) = universal_newlines original"
    proof
      assume h: "list_all (\<lambda>c. c < 256) original \<and> b = map char_of original
          \<and> decode_bytes Utf8 b = None"
      then have m: "map of_char b = original" using latin1_roundtrip by blast
      from h 3 have "TXTExtractor_extract env filepath =
          \<lparr>rtext = universal_newlines (map of_char b), metadata =
             [(''encoding'', PStr (ascii ''latin-1'')),
              (''lines'',
                 PInt (int (length (split_lines (universal_newlines (map of_char b))))))]\<rparr>"
        by blast
      then show "map_of (metadata (TXTExtractor_extract env filepath)) ''encoding''
          = Some (PStr (ascii ''latin-1''))
        \<and> rtext (TXTExtractor_extract env filepath) = universal_newlines original"
        by (simp add: m)
    qed
    from 1 2 3 4 show "decode_bytes Latin1 b = Some (map of_char b)
      \<and> (decode_bytes Utf8 b = Some s \<longrightarrow>
           TXTExtractor_extract env filepath =
             \<lparr>rtext = universal_newlines s, metadata =
                [(''encoding'', PStr (ascii ''utf-8'')),
                 (''lines'', PInt (int (length (split_lines (universal_newlines s)))))]\<rparr>)
      \<and> (decode_bytes Utf8 b = None \<longrightarrow>
           TXTExtractor_extract env filepath =
             \<lparr>rtext = universal_newlines (map of_char b), metadata =
                [(''encoding'', PStr (ascii ''latin-1'')),
                 (''lines'',
                    PInt (int (length (split_lines (universal_newlines (map of_char b))))))]\<rparr>)
      \<and> (list_all (\<lambda>c. c < 256) original \<and> b = map char_of original
             \<and> decode_bytes Utf8 b = None \<longrightarrow>
           map_of (metadata (TXTExtractor_extract env filepath)) ''encoding''
             = Some (PStr (ascii ''latin-1''))
           \<and> rtext (TXTExtractor_extract env filepath) = universal_newlines original)"
      by blast
  qed
  have o: "file_bytes env filepath = Inl e \<and> cls e \<noteq> UnicodeDecodeError \<longrightarrow>
        TXTExtractor_extract env filepath =
          \<lparr>rtext = [], metadata =
             [(''encoding'', PStr (ascii ''utf-8'')), (''lines'', PInt 0),
              (''error'', PStr (msg e))]\<rparr>"
    using TXT_unreadable by blast
  have a: "pd_read_csv env filepath Utf8 = Inr df \<longrightarrow>
        CSVExtractor_extract env filepath =
          \<lparr>rtext = str_join [10, 10] (text_parts env df), metadata =
             [(''rows'', PInt (int (length (rows df)))),
              (''columns'', PInt (int (length (columns df)))),
              (''encoding'', PStr (ascii ''utf-8''))]\<rparr>"
    using CSV_result [OF csv_try_utf8] by (simp add: encoding_name_def)
  have b: "pd_read_csv env filepath Utf8 = Inl e \<and> cls e \<noteq> UnicodeDecodeError \<longrightarrow>
        CSVExtractor_extract env filepath =
          \<lparr>rtext = [], metadata =
             [(''rows'', PInt 0), (''columns'', PInt 0), (''encoding'', PStr (ascii ''utf-8'')),
              (''error'', PStr (msg e))]\<rparr>"
    using CSV_failure [OF csv_try_other] by blast
  have c: "pd_read_csv env filepath Utf8 = Inl u \<and> cls u = UnicodeDecodeError
          \<and> pd_read_csv env filepath Latin1 = Inr df \<longrightarrow>
        CSVExtractor_extract env filepath =
          \<lparr>rtext = str_join [10, 10] (text_parts env df), metadata =
             [(''rows'', PInt (int (length (rows df)))),
              (''columns'', PInt (int (length (columns df)))),
              (''encoding'', PStr (ascii ''latin-1''))]\<rparr>"
    using CSV_result [OF csv_try_latin1] by (simp add: encoding_name_def)
  have d: "pd_read_csv env filepath Utf8 = Inl u \<and> cls u = UnicodeDecodeError
          \<and> pd_read_csv env filepath Latin1 = Inl e \<and> cls e \<noteq> UnicodeDecodeError \<longrightarrow>
        CSVExtractor_extract env filepath =
          \<lparr>rtext = [], metadata =
             [(''rows'', PInt 0), (''columns'', PInt 0), (''encoding'', PStr (ascii ''utf-8'')),
              (''error'', PStr (msg e))]\<rparr>"
    using CSV_failure [OF csv_try_latin1_other] by blast
  have h: "pd_read_csv env filepath Utf8 = Inl u \<and> cls u = UnicodeDecodeError
          \<and> pd_read_csv env filepath Latin1 = Inl v \<and> cls v = UnicodeDecodeError
          \<and> pd_read_csv env filepath Cp1252 = Inr df \<longrightarrow>
        CSVExtractor_extract env filepath =
          \<lparr>rtext = str_join [10, 10] (text_parts env df), metadata =
             [(''rows'', PInt (int (length (rows df)))),
              (''columns'', PInt (int (length (columns df)))),
              (''encoding'', PStr (ascii ''cp1252''))]\<rparr>"
    using CSV_result [OF csv_try_cp1252] by (simp add: encoding_name_def)
  have i: "pd_read_csv env filepath Utf8 = Inl u \<and> cls u = UnicodeDecodeError
          \<and> pd_read_csv env filepath Latin1 = Inl v \<and> cls v = UnicodeDecodeError
          \<and> pd_read_csv env filepath Cp1252 = Inl w \<and> cls w = UnicodeDecodeError \<longrightarrow>
        CSVExtractor_extract env filepath =
          \<lparr>rtext = [], metadata =
             [(''rows'', PInt 0), (''columns'', PInt 0), (''encoding'', PStr (ascii ''utf-8'')),
              (''error'', PStr (ascii ''Could not decode CSV with any common encoding''))]\<rparr>"
    using CSV_failure [OF csv_try_exhausted] by simp
  show ?thesis by (intro conjI) (rule t o a b c d h i)+
qed

theorem encoding_resolution_witness:
  "file_bytes (env_file cafe_utf8) (ascii ''menu.txt'') = Inr cafe_utf8
   \<and> decode_bytes Utf8 cafe_utf8 = Some [99, 97, 102, 233]
   \<and> TXTExtractor_extract (env_file cafe_utf8) (ascii ''menu.txt'') =
        \<lparr>rtext = [99, 97, 102, 233], metadata =
           [(''encoding'', PStr (ascii ''utf-8'')), (''lines'', PInt 1)]\<rparr>
   \<and> file_bytes (env_file cafe_latin1) (ascii ''menu.txt'') = Inr cafe_latin1
   \<and> decode_bytes Utf8 cafe_latin1 = None
   \<and> cafe_latin1 = map char_of [99, 97, 102, 233 :: nat]
   \<and> map_of (metadata (TXTExtractor_extract (env_file cafe_latin1) (ascii ''menu.txt''))) ''encoding''
        = Some (PStr (ascii ''latin-1''))
   \<and> rtext (TXTExtractor_extract (env_file cafe_latin1) (ascii ''menu.txt'')) = [99, 97, 102, 233]
   \<and> file_bytes no_libs (ascii ''menu.txt'') = Inl (Exn OtherError (ascii ''No such file''))
   \<and> map_of (metadata (TXTExtractor_extract no_libs (ascii ''menu.txt''))) ''error''
        = Some (PStr (ascii ''No such file''))
   \<and> pd_read_csv no_libs (ascii ''menu.txt'') Utf8 = Inl (Exn OtherError (ascii ''No such file''))
   \<and> map_of (metadata (CSVExtractor_extract no_libs (ascii ''menu.txt''))) ''error''
        = Some (PStr (ascii ''No such file''))
   \<and> pd_read_csv env_csv (ascii ''menu.txt'') Utf8 = Inr big_df
   \<and> map_of (metadata (CSVExtractor_extract env_csv (ascii ''menu.txt''))) ''encoding''
        = Some (PStr (ascii ''utf-8''))
   \<and> pd_read_csv env_csv_latin1 (ascii ''menu.txt'') Utf8 = Inl decode_error
   \<and> pd_read_csv env_csv_latin1 (ascii ''menu.txt'') Latin1 = Inr big_df
   \<and> map_of (metadata (CSVExtractor_extract env_csv_latin1 (ascii ''menu.txt''))) ''encoding''
        = Some (PStr (ascii ''latin-1''))
   \<and> pd_read_csv env_csv_ragged (ascii ''menu.txt'') Utf8 = Inl decode_error
   \<and> pd_read_csv env_csv_ragged (ascii ''menu.txt'') Latin1
        = Inl (Exn OtherError (ascii ''Error tokenizing data''))
   \<and> CSVExtractor_extract env_csv_ragged (ascii ''menu.txt'') =
        \<lparr>rtext = [], metadata =
           [(''rows'', PInt 0), (''columns'', PInt 0), (''encoding'', PStr (ascii ''utf-8'')),
            (''error'', PStr (ascii ''Error tokenizing data''))]\<rparr>
   \<and> cls decode_error = UnicodeDecodeError
   \<and> pd_read_csv env_csv_cp1252 (ascii ''menu.txt'') Utf8 = Inl decode_error
   \<and> pd_read_csv env_csv_cp1252 (ascii ''menu.txt'') Latin1 = Inl decode_error
   \<and> pd_read_csv env_csv_cp1252 (ascii ''menu.txt'') Cp1252 = Inr big_df
   \<and> map_of (metadata (CSVExtractor_extract env_csv_cp1252 (ascii ''menu.txt''))) ''encoding''
        = Some (PStr (ascii ''cp1252''))
   \<and> pd_read_csv env_csv_undecodable (ascii ''menu.txt'') Utf8 = Inl decode_error
   \<and> pd_read_csv env_csv_undecodable (ascii ''menu.txt'') Latin1 = Inl decode_error
   \<and> pd_read_csv env_csv_undecodable (ascii ''menu.txt'') Cp1252 = Inl decode_error
   \<and> CSVExtractor_extract env_csv_undecodable (ascii ''menu.txt'') =
        \<lparr>rtext = [], metadata =
           [(''rows'', PInt 0), (''columns'', PInt 0), (''encoding'', PStr (ascii ''utf-8'')),
            (''error'', PStr (ascii ''Could not decode CSV with any common encoding''))]\<rparr>"
proof -
  let ?p = "ascii ''menu.txt''"
  let ?nf = "Exn OtherError (ascii ''No such file'')"
  let ?tk = "Exn OtherError (ascii ''Error tokenizing data'')"
  have f1: "file_bytes (env_file cafe_utf8) ?p = Inr cafe_utf8"
    and f2: "file_bytes (env_file cafe_latin1) ?p = Inr cafe_latin1"
    and f3: "file_bytes no_libs ?p = Inl ?nf"
    by (simp_all add: env_file_def no_libs_def)
  have p3: "pd_read_csv no_libs ?p Utf8 = Inl ?nf"
    and p4: "pd_read_csv env_csv ?p Utf8 = Inr big_df"
    and p5: "pd_read_csv env_csv_latin1 ?p Utf8 = Inl decode_error"
      "pd_read_csv env_csv_latin1 ?p Latin1 = Inr big_df"
    and p6: "pd_read_csv env_csv_ragged ?p Utf8 = Inl decode_error"
      "pd_read_csv env_csv_ragged ?p Latin1 = Inl ?tk"
    by (simp_all add: no_libs_def env_csv_def env_csv_latin1_def env_csv_ragged_def)
  have k: "cls ?nf \<noteq> UnicodeDecodeError" "cls ?tk \<noteq> UnicodeDecodeError"
    "cls decode_error = UnicodeDecodeError"
    by (simp_all add: decode_error_def)
  have d1: "decode_bytes Utf8 cafe_utf8 = Some [99, 97, 102, 233]"
    by (simp add: decode_bytes_def cafe_utf8_def is_cont_def)
  have d2: "decode_bytes Utf8 cafe_latin1 = None"
    by (simp add: decode_bytes_def cafe_latin1_def)
  have "map char_of [99, 97, 102, 233 :: nat] = cafe_latin1"
    by (simp add: cafe_latin1_def char_of_eq_iff take_bit_eq_mod)
  then have o: "cafe_latin1 = map char_of [99, 97, 102, 233 :: nat]"
    "list_all (\<lambda>c. c < 256) [99, 97, 102, 233 :: nat]"
    by simp_all
  have l: "split_lines (universal_newlines [99, 97, 102, 233]) = [[99, 97, 102, 233]]"
    by simp
  have u: "universal_newlines [99, 97, 102, 233] = [99, 97, 102, 233]" by simp
  from encoding_resolution [of "env_file cafe_utf8" ?p cafe_utf8 "[99, 97, 102, 233]"] f1 d1
  have "TXTExtractor_extract (env_file cafe_utf8) ?p =
        \<lparr>rtext = universal_newlines [99, 97, 102, 233], metadata =
           [(''encoding'', PStr (ascii ''utf-8'')),
            (''lines'', PInt (int (length (split_lines (universal_newlines [99, 97, 102, 233])))))]\<rparr>"
    by blast
  then have r1: "TXTExtractor_extract (env_file cafe_utf8) ?p =
        \<lparr>rtext = [99, 97, 102, 233], metadata =
           [(''encoding'', PStr (ascii ''utf-8'')), (''lines'', PInt 1)]\<rparr>"
    by (simp only: l u) simp
  from encoding_resolution [where env = "env_file cafe_latin1" and filepath = ?p
      and b = cafe_latin1 and original = "[99, 97, 102, 233]"] f2 d2 o
  have "map_of (metadata (TXTExtractor_extract (env_file cafe_latin1) ?p)) ''encoding''
          = Some (PStr (ascii ''latin-1''))
        \<and> rtext (TXTExtractor_extract (env_file cafe_latin1) ?p)
            = universal_newlines [99, 97, 102, 233]"
    by blast
  then have r2: "map_of (metadata (TXTExtractor_extract (env_file cafe_latin1) ?p)) ''encoding''
        = Some (PStr (ascii ''latin-1''))"
     "rtext (TXTExtractor_extract (env_file cafe_latin1) ?p) = [99, 97, 102, 233]"
    by (simp_all only: u)
  from encoding_resolution [where env = no_libs and filepath = ?p and e = ?nf] f3 p3 k
  have "TXTExtractor_extract no_libs ?p =
          \<lparr>rtext = [], metadata =
             [(''encoding'', PStr (ascii ''utf-8'')), (''lines'', PInt 0),
              (''error'', PStr (msg ?nf))]\<rparr>"
    and "CSVExtractor_extract no_libs ?p =
          \<lparr>rtext = [], metadata =
             [(''rows'', PInt 0), (''columns'', PInt 0), (''encoding'', PStr (ascii ''utf-8'')),
              (''error'', PStr (msg ?nf))]\<rparr>"
    by blast+
  then have r3: "map_of (metadata (TXTExtractor_extract no_libs ?p)) ''error''
        = Some (PStr (ascii ''No such file''))"
    "map_of (metadata (CSVExtractor_extract no_libs ?p)) ''error''
        = Some (PStr (ascii ''No such file''))"
    by simp_all
  from encoding_resolution [where env = env_csv and filepath = ?p and df = big_df] p4
  have "CSVExtractor_extract env_csv ?p =
          \<lparr>rtext = str_join [10, 10] (text_parts env_csv big_df), metadata =
             [(''rows'', PInt (int (length (rows big_df)))),
              (''columns'', PInt (int (length (columns big_df)))),
              (''encoding'', PStr (ascii ''utf-8''))]\<rparr>"
    by blast
  then have r4: "map_of (metadata (CSVExtractor_extract env_csv ?p)) ''encoding''
        = Some (PStr (ascii ''utf-8''))"
    by simp
  from encoding_resolution [where env = env_csv_latin1 and filepath = ?p and df = big_df
      and u = decode_error] p5 k
  have "CSVExtractor_extract env_csv_latin1 ?p =
          \<lparr>rtext = str_join [10, 10] (text_parts env_csv_latin1 big_df), metadata =
             [(''rows'', PInt (int (length (rows big_df)))),
              (''columns'', PInt (int (length (columns big_df)))),
              (''encoding'', PStr (ascii ''latin-1''))]\<rparr>"
    by blast
  then have r5: "map_of (metadata (CSVExtractor_extract env_csv_latin1 ?p)) ''encoding''
        = Some (PStr (ascii ''latin-1''))"
    by simp
  from encoding_resolution [where env = env_csv_ragged and filepath = ?p and e = ?tk
      and u = decode_error] p6 k
  have "CSVExtractor_extract env_csv_ragged ?p =
          \<lparr>rtext = [], metadata =
             [(''rows'', PInt 0), (''columns'', PInt 0), (''encoding'', PStr (ascii ''utf-8'')),
              (''error'', PStr (msg ?tk))]\<rparr>"
    by blast
  then have r6: "CSVExtractor_extract env_csv_ragged ?p =
        \<lparr>rtext = [], metadata =
           [(''rows'', PInt 0), (''columns'', PInt 0), (''encoding'', PStr (ascii ''utf-8'')),
            (''error'', PStr (ascii ''Error tokenizing data''))]\<rparr>"
    by simp
  have p7: "pd_read_csv env_csv_cp1252 ?p Utf8 = Inl decode_error"
    "pd_read_csv env_csv_cp1252 ?p Latin1 = Inl decode_error"
    "pd_read_csv env_csv_cp1252 ?p Cp1252 = Inr big_df"
    and p8: "pd_read_csv env_csv_undecodable ?p Utf8 = Inl decode_error"
    "pd_read_csv env_csv_undecodable ?p Latin1 = Inl decode_error"
    "pd_read_csv env_csv_undecodable ?p Cp1252 = Inl decode_error"
    by (simp_all add: env_csv_cp1252_def env_csv_undecodable_def env_csv_def no_libs_def)
  have r7: "map_of (metadata (CSVExtractor_extract env_csv_cp1252 ?p)) ''encoding''
        = Some (PStr (ascii ''cp1252''))"
    using encoding_resolution [where env = env_csv_cp1252 and filepath = ?p and df = big_df
      and u = decode_error and v = decode_error and w = decode_error and e = decode_error
      and b = "[]" and s = "[]" and original = "[]"]
    by (simp add: p7 k)
  have r8: "CSVExtractor_extract env_csv_undecodable ?p =
        \<lparr>rtext = [], metadata =
           [(''rows'', PInt 0), (''columns'', PInt 0), (''encoding'', PStr (ascii ''utf-8'')),
            (''error'', PStr (ascii ''Could not decode CSV with any common encoding''))]\<rparr>"
    using encoding_resolution [where env = env_csv_undecodable and filepath = ?p and df = big_df
      and u = decode_error and v = decode_error and w = decode_error and e = decode_error
      and b = "[]" and s = "[]" and original = "[]"]
    by (simp add: p8 k)
  show ?thesis
    by (intro conjI)
       (rule f1 d1 r1 f2 d2 o(1) r2 f3 r3 p3 p4 r4 p5 r5 p6 r6 k(3) p7 r7 p8 r8)+
qed

text \<open>Claim C6 as stated fails on the file holding the Windows-1252 encoding of the
  euro sign (the byte 0x80): the recorded encoding is \<^verbatim>\<open>latin-1\<close>, and the text is
  U+0080, not U+20AC.\<close>

theorem cp1252_file_resolves_to_latin1:
  "decode_bytes Cp1252 [CHR 0x80] = Some [8364]
   \<and> file_bytes (env_file [CHR 0x80]) (ascii ''price.txt'') = Inr [CHR 0x80]
   \<and> TXTExtractor_extract (env_file [CHR 0x80]) (ascii ''price.txt'') =
        \<lparr>rtext = [128], metadata =
           [(''encoding'', PStr (ascii ''latin-1'')), (''lines'', PInt 1)]\<rparr>
   \<and> map_of (metadata (TXTExtractor_extract (env_file [CHR 0x80]) (ascii ''price.txt''))) ''encoding''
        \<noteq> Some (PStr (ascii ''cp1252''))
   \<and> rtext (TXTExtractor_extract (env_file [CHR 0x80]) (ascii ''price.txt'')) \<noteq> [8364]"
  by (simp add: TXTExtractor_extract_def TXT_body_def TXT_init_def catch_all_def set_meta_def
        encodings_def open_read_def decode_bytes_def cp1252_byte_def cp1252_high_def
        decode_error_def env_file_def no_libs_def encoding_name_def ascii_def)

subsection \<open>The table summary\<close>

text \<open>
  Claim C7.  When the file parses into a table \<open>df\<close>, the text is the header line
  with the row and column counts, the line of the column names, the line
  \<^verbatim>\<open>Data preview:\<close> and the rendering of \<^verbatim>\<open>df.head(10)\<close>, joined by blank
  lines; \<^verbatim>\<open>df.head(10)\<close> has the columns of \<open>df\<close> and its first 10 rows, at most
  10; and \<^verbatim>\<open>metadata.rows\<close> and \<^verbatim>\<open>metadata.columns\<close> are the full counts.
\<close>

theorem CSV_summary_and_preview:
  assumes "csv_try env filepath encodings = Inr (enc, df)"
  shows "rtext (CSVExtractor_extract env filepath) =
           ascii ''CSV Table with '' @ str_nat (length (rows df)) @ ascii '' rows and ''
             @ str_nat (length (columns df)) @ ascii '' columns:'' @ [10, 10]
           @ ascii ''Columns: '' @ str_join (ascii '', '') (columns df) @ [10, 10]
           @ ascii ''Data preview:'' @ [10, 10]
           @ to_string env (head 10 df)
   \<and> rows (head 10 df) = take 10 (rows df)
   \<and> columns (head 10 df) = columns df
   \<and> length (rows (head 10 df)) \<le> 10
   \<and> map_of (metadata (CSVExtractor_extract env filepath)) ''rows''
        = Some (PInt (int (length (rows df))))
   \<and> map_of (metadata (CSVExtractor_extract env filepath)) ''columns''
        = Some (PInt (int (length (columns df))))
   \<and> \<not> has_error (CSVExtractor_extract env filepath)"
  by (simp add: CSV_result [OF assms] text_parts_def head_def has_error_def)

theorem CSV_summary_and_preview_witness:
  "csv_try env_csv (ascii ''big.csv'') encodings = Inr (Utf8, big_df)
   \<and> length (rows big_df) = 10000
   \<and> length (rows (head 10 big_df)) = 10
   \<and> map_of (metadata (CSVExtractor_extract env_csv (ascii ''big.csv''))) ''rows''
        = Some (PInt 10000)
   \<and> map_of (metadata (CSVExtractor_extract env_csv (ascii ''big.csv''))) ''columns''
        = Some (PInt 2)
   \<and> rtext (CSVExtractor_extract env_csv (ascii ''big.csv'')) =
        ascii ''CSV Table with 10000 rows and 2 columns:'' @ [10, 10]
        @ ascii ''Columns: id, name'' @ [10, 10]
        @ ascii ''Data preview:'' @ [10, 10]
        @ to_string env_csv (head 10 big_df)"
proof -
  have t: "csv_try env_csv (ascii ''big.csv'') encodings = Inr (Utf8, big_df)"
    by (simp add: encodings_def env_csv_def)
  have n: "length (rows big_df) = 10000" "length (columns big_df) = 2"
    "columns big_df = [ascii ''id'', ascii ''name'']"
    by (simp_all add: big_df_def)
  have h: "length (rows (head 10 big_df)) = 10"
    by (simp add: head_def big_df_def)
  have s: "str_nat 10000 = ascii ''10000''" "str_nat 2 = ascii ''2''"
    by (simp_all add: str_nat.simps [of 10000] str_nat.simps [of 1000] str_nat.simps [of 100]
          str_nat.simps [of 10] str_nat_digit ascii_def)
  from CSV_summary_and_preview [OF t] t n h s show ?thesis
    by (simp add: ascii_def str_nat_digit)
qed

subsection \<open>Plain text\<close>

text \<open>
  Claim C8, amended.  For a readable plain-text file, with \<open>content\<close> its bytes
  decoded by the resolved encoding, the returned text is the whole content with
  \<^verbatim>\<open>\r\n\<close> and \<^verbatim>\<open>\r\<close> replaced by \<^verbatim>\<open>\n\<close> (verbatim when the content has no
  carriage return), and \<^verbatim>\<open>metadata.lines\<close> is the number of segments of the text
  split at \<^verbatim>\<open>\n\<close>: the number of line feeds plus one, so that a text ending in a line
  feed ends with an empty segment, which is counted.
\<close>

theorem TXT_text_and_lines:
  assumes "file_bytes env filepath = Inr b"
    and "decode_bytes (if decode_bytes Utf8 b = None then Latin1 else Utf8) b = Some content"
  shows "rtext (TXTExtractor_extract env filepath) = universal_newlines content
   \<and> (13 \<notin> set content \<longrightarrow> rtext (TXTExtractor_extract env filepath) = content)
   \<and> map_of (metadata (TXTExtractor_extract env filepath)) ''lines''
        = Some (PInt (int (length (split_lines (rtext (TXTExtractor_extract env filepath))))))
   \<and> length (split_lines (rtext (TXTExtractor_extract env filepath)))
        = count_list (rtext (TXTExtractor_extract env filepath)) 10 + 1
   \<and> (rtext (TXTExtractor_extract env filepath) \<noteq> []
        \<and> last (rtext (TXTExtractor_extract env filepath)) = 10 \<longrightarrow>
          last (split_lines (rtext (TXTExtractor_extract env filepath))) = [])
   \<and> \<not> has_error (TXTExtractor_extract env filepath)"
proof -
  note r = TXT_result [OF assms]
  have 1: "rtext (TXTExtractor_extract env filepath) = universal_newlines content"
    by (simp add: r)
  have 2: "13 \<notin> set content \<longrightarrow> rtext (TXTExtractor_extract env filepath) = content"
    by (simp add: r universal_newlines_no_cr)
  have 3: "map_of (metadata (TXTExtractor_extract env filepath)) ''lines''
        = Some (PInt (int (length (split_lines (rtext (TXTExtractor_extract env filepath))))))"
    by (simp add: r)
  have 4: "length (split_lines (rtext (TXTExtractor_extract env filepath)))
        = count_list (rtext (TXTExtractor_extract env filepath)) 10 + 1"
    by (rule length_split_lines)
  have 5: "rtext (TXTExtractor_extract env filepath) \<noteq> []
        \<and> last (rtext (TXTExtractor_extract env filepath)) = 10 \<longrightarrow>
          last (split_lines (rtext (TXTExtractor_extract env filepath))) = []"
    using last_split_lines by blast
  have 6: "\<not> has_error (TXTExtractor_extract env filepath)"
    by (simp add: r has_error_def)
  from 1 2 3 4 5 6 show ?thesis by blast
qed

theorem TXT_text_and_lines_witness:
  "file_bytes (env_file ''ab\<newline>cd\<newline>'') (ascii ''notes.txt'') = Inr ''ab\<newline>cd\<newline>''
   \<and> decode_bytes Utf8 ''ab\<newline>cd\<newline>'' = Some (ascii ''ab\<newline>cd\<newline>'')
   \<and> rtext (TXTExtractor_extract (env_file ''ab\<newline>cd\<newline>'') (ascii ''notes.txt''))
        = ascii ''ab\<newline>cd\<newline>''
   \<and> map_of (metadata (TXTExtractor_extract (env_file ''ab\<newline>cd\<newline>'') (ascii ''notes.txt''))) ''lines''
        = Some (PInt 3)
   \<and> split_lines (ascii ''ab\<newline>cd\<newline>'') = [ascii ''ab'', ascii ''cd'', []]"
proof -
  let ?b = "''ab\<newline>cd\<newline>''"
  have f: "file_bytes (env_file ?b) (ascii ''notes.txt'') = Inr ?b"
    by (simp add: env_file_def)
  have d: "decode_bytes Utf8 ?b = Some (ascii ?b)"
    by (simp add: decode_bytes_def ascii_def)
  then have d': "decode_bytes (if decode_bytes Utf8 ?b = None then Latin1 else Utf8) ?b
                  = Some (ascii ?b)"
    by simp
  have n: "13 \<notin> set (ascii ?b)" by (simp add: ascii_def)
  have s: "split_lines (ascii ?b) = [ascii ''ab'', ascii ''cd'', []]"
    by (simp add: ascii_def)
  from TXT_text_and_lines [OF f d'] n
  have "rtext (TXTExtractor_extract (env_file ?b) (ascii ''notes.txt'')) = ascii ?b"
    and "map_of (metadata (TXTExtractor_extract (env_file ?b) (ascii ''notes.txt''))) ''lines''
        = Some (PInt (int (length (split_lines (rtext (TXTExtractor_extract (env_file ?b) (ascii ''notes.txt'')))))))"
    by blast+
  with f d s show ?thesis by simp
qed


text \<open>Claim C8 as stated fails on a file with a DOS line ending: the bytes
  \<^verbatim>\<open>a\r\nb\<close> are returned as \<^verbatim>\<open>a\nb\<close>.\<close>

theorem TXT_crlf_not_verbatim:
  "file_bytes (env_file [CHR ''a'', CHR 0x0D, CHR 0x0A, CHR ''b'']) (ascii ''dos.txt'')
      = Inr [CHR ''a'', CHR 0x0D, CHR 0x0A, CHR ''b'']
   \<and> decode_bytes Utf8 [CHR ''a'', CHR 0x0D, CHR 0x0A, CHR ''b''] = Some [97, 13, 10, 98]
   \<and> \<not> has_error (TXTExtractor_extract (env_file [CHR ''a'', CHR 0x0D, CHR 0x0A, CHR ''b'']) (ascii ''dos.txt''))
   \<and> rtext (TXTExtractor_extract (env_file [CHR ''a'', CHR 0x0D, CHR 0x0A, CHR ''b'']) (ascii ''dos.txt''))
        = [97, 10, 98]
   \<and> rtext (TXTExtractor_extract (env_file [CHR ''a'', CHR 0x0D, CHR 0x0A, CHR ''b'']) (ascii ''dos.txt''))
        \<noteq> [97, 13, 10, 98]"
  by (simp add: TXTExtractor_extract_def TXT_body_def TXT_init_def catch_all_def set_meta_def
        encodings_def open_read_def decode_bytes_def has_error_def
        env_file_def no_libs_def encoding_name_def ascii_def)

subsection \<open>The factory\<close>

text \<open>
  Claim C9.  For a format tag that is not a key of the registered mapping,
  \<open>get_extractor\<close> raises \<^verbatim>\<open>ValueError\<close> with the message
  \<^verbatim>\<open>No extractor available for file type: \<close> followed by the tag; for a registered
  tag it returns a strategy; and the alias tags DOC, DWG and XLSX return the same
  strategy as DOCX, DXF and CSV.
\<close>

theorem get_extractor_registry:
  "(file_type \<notin> set (map fst extractors) \<longrightarrow>
      get_extractor file_type =
        Inl (Exn ValueError (ascii ''No extractor available for file type: '' @ file_type)))
   \<and> (file_type \<in> set (map fst extractors) \<longrightarrow> (\<exists>c. get_extractor file_type = Inr c))
   \<and> get_extractor (ascii ''DOC'') = Inr DOCXExtractor
   \<and> get_extractor (ascii ''DOCX'') = Inr DOCXExtractor
   \<and> get_extractor (ascii ''DWG'') = Inr CADExtractor
   \<and> get_extractor (ascii ''DXF'') = Inr CADExtractor
   \<and> get_extractor (ascii ''XLSX'') = Inr CSVExtractor
   \<and> get_extractor (ascii ''CSV'') = Inr CSVExtractor"
proof -
  have a: "file_type \<notin> set (map fst extractors) \<longrightarrow>
      get_extractor file_type =
        Inl (Exn ValueError (ascii ''No extractor available for file type: '' @ file_type))"
  proof
    assume "file_type \<notin> set (map fst extractors)"
    then have "map_of extractors file_type = None"
      by (simp add: map_of_eq_None_iff)
    then show "get_extractor file_type =
        Inl (Exn ValueError (ascii ''No extractor available for file type: '' @ file_type))"
      by (simp add: get_extractor_def)
  qed
  have b: "file_type \<in> set (map fst extractors) \<longrightarrow> (\<exists>c. get_extractor file_type = Inr c)"
  proof
    assume "file_type \<in> set (map fst extractors)"
    then have "map_of extractors file_type \<noteq> None"
      by (simp add: map_of_eq_None_iff)
    then obtain c where "map_of extractors file_type = Some c" by blast
    then show "\<exists>c. get_extractor file_type = Inr c"
      by (simp add: get_extractor_def)
  qed
  have c: "get_extractor (ascii ''DOC'') = Inr DOCXExtractor"
      "get_extractor (ascii ''DOCX'') = Inr DOCXExtractor"
      "get_extractor (ascii ''DWG'') = Inr CADExtractor"
      "get_extractor (ascii ''DXF'') = Inr CADExtractor"
      "get_extractor (ascii ''XLSX'') = Inr CSVExtractor"
      "get_extractor (ascii ''CSV'') = Inr CSVExtractor"
    by (simp_all add: get_extractor_def extractors_def ascii_def)
  from a b c show ?thesis by blast
qed

theorem get_extractor_registry_witness:
  "ascii ''PPTX'' \<notin> set (map fst extractors)
   \<and> get_extractor (ascii ''PPTX'') =
        Inl (Exn ValueError (ascii ''No extractor available for file type: PPTX''))
   \<and> ascii ''PDF'' \<in> set (map fst extractors)
   \<and> (\<exists>c. get_extractor (ascii ''PDF'') = Inr c)"
proof -
  have n: "ascii ''PPTX'' \<notin> set (map fst extractors)"
    by (simp add: extractors_def ascii_def)
  have y: "ascii ''PDF'' \<in> set (map fst extractors)"
    by (simp add: extractors_def ascii_def)
  have m: "ascii ''No extractor available for file type: '' @ ascii ''PPTX''
             = ascii ''No extractor available for file type: PPTX''"
    by (simp add: ascii_def)
  from n y m get_extractor_registry [of "ascii ''PPTX''"] get_extractor_registry [of "ascii ''PDF''"]
  show ?thesis by simp
qed

end
